theory Spec2Isabelle
  imports Main
begin

section \<open>Python string and path primitives used by renderFarm.py\<close>

text \<open>
  \<^verbatim>\<open>s.replace('#', new)\<close>: every occurrence of the one-character pattern is replaced,
  left to right.
\<close>

definition str_replace :: "char \<Rightarrow> string \<Rightarrow> string \<Rightarrow> string" where
  "str_replace old new s = concat (map (\<lambda>c. if c = old then new else [c]) s)"

definition digit_char :: "nat \<Rightarrow> char" where
  "digit_char d = ''0123456789'' ! d"

text \<open>The decimal digits of a non-negative Python integer, most significant first.\<close>

function decimal :: "int \<Rightarrow> string" where
  "decimal n = (if n < 10 then [digit_char (nat n)]
                else decimal (n div 10) @ [digit_char (nat (n mod 10))])"
  by pat_completeness auto
termination
  by (relation "measure nat") auto

declare decimal.simps [simp del]

text \<open>\<^verbatim>\<open>str(i)\<close> for an integer.\<close>

definition str_int :: "int \<Rightarrow> string" where
  "str_int i = (if 0 \<le> i then decimal i else CHR ''-'' # decimal (- i))"

definition zero_pad :: "nat \<Rightarrow> string \<Rightarrow> string" where
  "zero_pad w s = replicate (w - length s) CHR ''0'' @ s"

text \<open>
  \<^verbatim>\<open>f"{frame:04d}"\<close>: sign-aware zero padding to a minimum width of four characters;
  the sign counts towards the width and longer numbers are not truncated.
\<close>

definition format_04d :: "int \<Rightarrow> string" where
  "format_04d f = (if 0 \<le> f then zero_pad 4 (decimal f)
                   else CHR ''-'' # zero_pad 3 (decimal (- f)))"

text \<open>\<^verbatim>\<open>os.path.basename\<close> (posixpath): everything after the last slash.\<close>

definition basename :: "string \<Rightarrow> string" where
  "basename p = rev (takeWhile (\<lambda>c. c \<noteq> CHR ''/'') (rev p))"

text \<open>
  \<^verbatim>\<open>os.path.dirname\<close> (posixpath): everything up to the last slash, with trailing
  slashes stripped unless the head consists of slashes only.
\<close>

definition dirname :: "string \<Rightarrow> string" where
  "dirname p =
     (let head = rev (dropWhile (\<lambda>c. c \<noteq> CHR ''/'') (rev p)) in
      if head \<noteq> [] \<and> head \<noteq> replicate (length head) CHR ''/''
      then rev (dropWhile (\<lambda>c. c = CHR ''/'') (rev head))
      else head)"

text \<open>\<^verbatim>\<open>os.path.join(a, b)\<close> (posixpath) for two components.\<close>

definition path_join :: "string \<Rightarrow> string \<Rightarrow> string" where
  "path_join a b =
     (if b \<noteq> [] \<and> hd b = CHR ''/'' then b
      else if a = [] \<or> last a = CHR ''/'' then a @ b
      else a @ ''/'' @ b)"

text \<open>
  \<^verbatim>\<open>os.path.splitext(p)[0]\<close> (posixpath): the extension starts at the last dot of the
  last component, unless only dots precede it there.
\<close>

definition splitext_root :: "string \<Rightarrow> string" where
  "splitext_root p =
     (let name = basename p;
          ext_rev = takeWhile (\<lambda>c. c \<noteq> CHR ''.'') (rev name);
          stem = take (length name - length ext_rev - 1) name
      in if CHR ''.'' \<in> set name \<and> (\<exists>c \<in> set stem. c \<noteq> CHR ''.'')
         then take (length p - length ext_rev - 1) p
         else p)"

text \<open>
  A Python \<^verbatim>\<open>dict\<close> keeps insertion order; it is an association list with unique keys.
  \<^verbatim>\<open>d[k] = v\<close> overwrites in place or appends, \<^verbatim>\<open>k in d\<close> and \<^verbatim>\<open>d[k]\<close> are
  \<^const>\<open>map_of\<close>.
\<close>

type_synonym ('k, 'v) dict = "('k \<times> 'v) list"

fun dict_set :: "('k, 'v) dict \<Rightarrow> 'k \<Rightarrow> 'v \<Rightarrow> ('k, 'v) dict" where
  "dict_set [] k v = [(k, v)]"
| "dict_set ((k', v') # d) k v =
     (if k' = k then (k, v) # d else (k', v') # dict_set d k v)"

section \<open>The compositor output graph\<close>

text \<open>
  A slot's image format; the three optional attributes are read with
  \<^verbatim>\<open>getattr(slot.format, ..., None)\<close>, so an absent attribute is \<^const>\<open>None\<close>.
\<close>

record image_format =
  file_format :: string
  color_depth :: "string option"
  exr_codec :: "string option"
  color_mode :: "string option"

record file_slot =
  path :: string
  format :: image_format

record output_node =
  node_type :: string
  base_path :: string
  file_slots :: "file_slot list"

record scene =
  node_tree :: "output_node list option"
  use_nodes :: bool

text \<open>
  \<^verbatim>\<open>get_file_output_nodes\<close>: the nodes of type \<^verbatim>\<open>OUTPUT_FILE\<close> of every scene that has
  a node tree and uses nodes, in scene order then node order.
\<close>

fun scene_output_nodes :: "output_node list \<Rightarrow> output_node list" where
  "scene_output_nodes [] = []"
| "scene_output_nodes (node # nodes) =
     (if node_type node = ''OUTPUT_FILE'' then node # scene_output_nodes nodes
      else scene_output_nodes nodes)"

fun get_file_output_nodes :: "scene list \<Rightarrow> output_node list" where
  "get_file_output_nodes [] = []"
| "get_file_output_nodes (sc # scenes) =
     (case node_tree sc of
        None \<Rightarrow> get_file_output_nodes scenes
      | Some nodes \<Rightarrow>
          (if use_nodes sc then scene_output_nodes nodes @ get_file_output_nodes scenes
           else get_file_output_nodes scenes))"

section \<open>The snapshot taken by render\_frame\<close>

text \<open>
  The entries of \<^verbatim>\<open>original_paths\<close>: per node index, the base path and the list of
  per-slot dictionaries with the slot's path and format attributes.
\<close>

record slot_info =
  si_path :: string
  si_format :: image_format

record node_info =
  ni_base_path :: string
  ni_file_slots :: "slot_info list"

type_synonym snapshot = "(nat, node_info) dict"

definition temp_output_dir :: string where
  "temp_output_dir = ''/renders/temp''"

text \<open>The inner loop of the capture: one \<^verbatim>\<open>append\<close> per slot, in slot order.\<close>

fun capture_slots :: "file_slot list \<Rightarrow> slot_info list \<Rightarrow> slot_info list" where
  "capture_slots [] acc = acc"
| "capture_slots (slot # slots) acc =
     capture_slots slots
       (acc @ [\<lparr>si_path = path slot,
                si_format = \<lparr>file_format = file_format (format slot),
                             color_depth = color_depth (format slot),
                             exr_codec = exr_codec (format slot),
                             color_mode = color_mode (format slot)\<rparr>\<rparr>])"

text \<open>
  The redirect loop (lines 169 to 188): for node number \<open>i\<close> the entry
  \<^verbatim>\<open>original_paths[i]\<close> is stored, then the node's base path is overwritten with the
  scratch directory. The function returns the mutated nodes and the dictionary.
\<close>

fun redirect_loop ::
  "nat \<Rightarrow> output_node list \<Rightarrow> string \<Rightarrow> snapshot \<Rightarrow> output_node list \<times> snapshot" where
  "redirect_loop i [] scratch snap = ([], snap)"
| "redirect_loop i (node # nodes) scratch snap =
     (let snap' = dict_set snap i
                    \<lparr>ni_base_path = base_path node,
                     ni_file_slots = capture_slots (file_slots node) []\<rparr>;
          node' = node\<lparr>base_path := scratch\<rparr>;
          (nodes', snap'') = redirect_loop (Suc i) nodes scratch snap'
      in (node' # nodes', snap''))"

definition redirect :: "output_node list \<Rightarrow> string \<Rightarrow> output_node list \<times> snapshot" where
  "redirect nodes scratch = redirect_loop 0 nodes scratch []"

text \<open>
  The restore loop (lines 202 to 207): a node whose index is a key of the dictionary gets
  its base path back, and each slot whose index is within the captured list gets its path
  back.
\<close>

fun restore_slots :: "nat \<Rightarrow> file_slot list \<Rightarrow> slot_info list \<Rightarrow> file_slot list" where
  "restore_slots j [] infos = []"
| "restore_slots j (slot # slots) infos =
     (if j < length infos then slot\<lparr>path := si_path (infos ! j)\<rparr> else slot)
       # restore_slots (Suc j) slots infos"

fun restore_loop :: "nat \<Rightarrow> output_node list \<Rightarrow> snapshot \<Rightarrow> output_node list" where
  "restore_loop i [] snap = []"
| "restore_loop i (node # nodes) snap =
     (case map_of snap i of
        None \<Rightarrow> node
      | Some info \<Rightarrow>
          node\<lparr>base_path := ni_base_path info,
               file_slots := restore_slots 0 (file_slots node) (ni_file_slots info)\<rparr>)
       # restore_loop (Suc i) nodes snap"

definition restore :: "output_node list \<Rightarrow> snapshot \<Rightarrow> output_node list" where
  "restore nodes snap = restore_loop 0 nodes snap"

section \<open>The per-frame render unit\<close>

datatype py_error =
    RenderError string
  | PreparationError string
  | TypeError string
  | OSError string
  | RuntimeError string

record frame_result =
  frame :: int
  files :: "(string, string) dict"
  original_paths :: snapshot

text \<open>
  \<^verbatim>\<open>render_frame\<close> from the point where the output nodes are known. The engine's render
  followed by the walk of the scratch directory is the parameter \<open>render_and_collect\<close>:
  it sees the redirected nodes and the frame number and either raises or yields the
  dictionary of produced files (relative path to absolute path). There is no exception
  handler in the function, so a raise leaves it at once. The first component of the
  result is the state of the output nodes when the function is left.
\<close>

definition render_frame ::
  "(output_node list \<Rightarrow> int \<Rightarrow> py_error + (string, string) dict) \<Rightarrow>
   output_node list \<Rightarrow> int \<Rightarrow> output_node list \<times> (py_error + frame_result)" where
  "render_frame render_and_collect output_nodes frame_number =
     (let (redirected, snap) = redirect output_nodes temp_output_dir in
      case render_and_collect redirected frame_number of
        Inl e \<Rightarrow> (redirected, Inl e)
      | Inr rendered_files \<Rightarrow>
          (restore redirected snap,
           Inr \<lparr>frame = frame_number, files = rendered_files, original_paths = snap\<rparr>))"

section \<open>AssetTracker\<close>

text \<open>
  The table \<^verbatim>\<open>assets (path TEXT PRIMARY KEY, hash TEXT, last_modified REAL)\<close> as its
  list of rows. \<^verbatim>\<open>INSERT OR REPLACE\<close> deletes every row that conflicts on the primary
  key and then inserts the new row; \<^verbatim>\<open>SELECT hash ... WHERE path = ?\<close> followed by
  \<^verbatim>\<open>fetchone()\<close> yields the first row with that path, if any.
\<close>

type_synonym 't assets = "(string \<times> string \<times> 't) list"

definition get_asset_hash :: "'t assets \<Rightarrow> string \<Rightarrow> string option" where
  "get_asset_hash tbl p =
     (case filter (\<lambda>row. fst row = p) tbl of
        [] \<Rightarrow> None
      | row # _ \<Rightarrow> Some (fst (snd row)))"

definition update_asset :: "'t assets \<Rightarrow> string \<Rightarrow> string \<Rightarrow> 't \<Rightarrow> 't assets" where
  "update_asset tbl p file_hash modified_time =
     filter (\<lambda>row. fst row \<noteq> p) tbl @ [(p, file_hash, modified_time)]"

section \<open>Effects of the submitting side\<close>

text \<open>
  The effects of the operator, in order. A local operation (directory creation, file
  copy, scene save, tracker, print, report) is recorded when it has been carried out; a
  remote call is recorded when it is issued, whether it then returns or raises. Reports
  and prints are taken to succeed, as is leaving the session block.
\<close>

datatype event =
    Report string string
  | Print string
  | MakeDirs string
  | SaveAsMainfile string
  | TrackerOpen string
  | TrackerClose
  | RemotePrepare string
  | RemoteRender string int
  | RemoteRenderMap "(string \<times> int) list" int
  | WriteBytes string string
  | DropboxUpload string string

fun is_remote :: "event \<Rightarrow> bool" where
  "is_remote (RemotePrepare _) = True"
| "is_remote (RemoteRender _ _) = True"
| "is_remote (RemoteRenderMap _ _) = True"
| "is_remote _ = False"

fun is_error_report :: "event \<Rightarrow> bool" where
  "is_error_report (Report level _) = (level = ''ERROR'')"
| "is_error_report _ = False"

fun is_write :: "event \<Rightarrow> bool" where
  "is_write (WriteBytes _ _) = True"
| "is_write _ = False"

fun error_str :: "py_error \<Rightarrow> string" where
  "error_str (RenderError m) = m"
| "error_str (PreparationError m) = m"
| "error_str (TypeError m) = m"
| "error_str (OSError m) = m"
| "error_str (RuntimeError m) = m"

section \<open>The submitter's machine\<close>

text \<open>
  What the local operations of the operator do on the machine it runs on: each either
  succeeds (\<^const>\<open>None\<close>) or raises the given exception. \<open>makedirs\<close> is
  \<^verbatim>\<open>os.makedirs(d, exist_ok=True)\<close> for a non-empty path, \<open>read_bytes\<close> and
  \<open>write_bytes\<close> are the two halves of the file copy, \<open>save_as_mainfile\<close> is
  \<^verbatim>\<open>bpy.ops.wm.save_as_mainfile(filepath=..., copy=True)\<close>, \<open>tracker_connect\<close> is the
  connection to the database and the creation of its table in
  \<^verbatim>\<open>AssetTracker.__init__\<close>, and \<open>tracker_close\<close> is \<^verbatim>\<open>tracker.close()\<close>.
\<close>

record local_env =
  makedirs :: "string \<Rightarrow> py_error option"
  read_bytes :: "string \<Rightarrow> py_error option"
  write_bytes :: "string \<Rightarrow> py_error option"
  save_as_mainfile :: "string \<Rightarrow> py_error option"
  tracker_connect :: "string \<Rightarrow> py_error option"
  tracker_close :: "py_error option"

text \<open>
  \<^verbatim>\<open>os.makedirs(d, exist_ok=True)\<close>: the empty path is refused on every machine
  (\<^verbatim>\<open>FileNotFoundError\<close>, an \<^verbatim>\<open>OSError\<close>, whose text ends in two apostrophes).
\<close>

definition os_makedirs :: "local_env \<Rightarrow> string \<Rightarrow> py_error option" where
  "os_makedirs env d =
     (if d = []
      then Some (OSError (''[Errno 2] No such file or directory: '' @ [CHR 0x27, CHR 0x27]))
      else makedirs env d)"

text \<open>
  Lines 469 to 473: create the destination's directory, read the produced file, write
  the destination, print. The argument of \<^verbatim>\<open>write_bytes\<close> is evaluated first, so the
  read comes before the write. The result is the effects carried out and the exception
  raised, if any.
\<close>

definition place_file ::
  "local_env \<Rightarrow> string \<Rightarrow> string \<Rightarrow> event list \<times> py_error option" where
  "place_file env original_path file_path =
     (case os_makedirs env (dirname original_path) of
        Some e \<Rightarrow> ([], Some e)
      | None \<Rightarrow>
          (case read_bytes env file_path of
             Some e \<Rightarrow> ([MakeDirs (dirname original_path)], Some e)
           | None \<Rightarrow>
               (case write_bytes env original_path of
                  Some e \<Rightarrow> ([MakeDirs (dirname original_path)], Some e)
                | None \<Rightarrow>
                    ([MakeDirs (dirname original_path),
                      WriteBytes original_path file_path,
                      Print (''Saved file to '' @ original_path)], None))))"

text \<open>
  \<^verbatim>\<open>AssetTracker.__init__\<close> (lines 59 to 77): create the directory of the database
  file, then connect and create the table.
\<close>

definition tracker_init :: "local_env \<Rightarrow> string \<Rightarrow> event list \<times> py_error option" where
  "tracker_init env db_path =
     (case os_makedirs env (dirname db_path) of
        Some e \<Rightarrow> ([], Some e)
      | None \<Rightarrow>
          (case tracker_connect env db_path of
             Some e \<Rightarrow> ([MakeDirs (dirname db_path)], Some e)
           | None \<Rightarrow> ([MakeDirs (dirname db_path), TrackerOpen db_path], None)))"

section \<open>Uploading to Dropbox\<close>

text \<open>
  The module-level function \<^verbatim>\<open>upload_to_dropbox(file_path, dropbox_path)\<close>. The
  environment variable is \<open>api_token\<close> (\<^const>\<open>None\<close> when unset; the empty string is
  falsy as well); the Dropbox client's upload is the parameter \<open>files_upload\<close>, which
  may raise. Every exception is swallowed and turned into \<^const>\<open>False\<close>.
\<close>

definition upload_to_dropbox ::
  "string option \<Rightarrow> (string \<Rightarrow> string \<Rightarrow> string \<Rightarrow> py_error option) \<Rightarrow>
   string \<Rightarrow> string \<Rightarrow> event list \<times> bool" where
  "upload_to_dropbox api_token files_upload file_path dropbox_path =
     (case api_token of
        None \<Rightarrow> ([Print ''Warning: DROPBOX_API_TOKEN not set, skipping Dropbox upload''], False)
      | Some tok \<Rightarrow>
          if tok = [] then
            ([Print ''Warning: DROPBOX_API_TOKEN not set, skipping Dropbox upload''], False)
          else
            (case files_upload tok file_path dropbox_path of
               Some e \<Rightarrow> ([Print (''Error uploading to Dropbox: '' @ error_str e)], False)
             | None \<Rightarrow>
                 ([DropboxUpload file_path dropbox_path,
                   Print (''Uploaded '' @ file_path @ '' to Dropbox at '' @ dropbox_path)], True)))"

text \<open>
  Inside \<^verbatim>\<open>_process_rendered_files\<close> the name \<^verbatim>\<open>upload_to_dropbox\<close> is the method's
  own parameter, which the operator passes as the Boolean property
  \<^verbatim>\<open>self.upload_to_dropbox\<close>; the parameter hides the module-level function. The values
  that name can stand for, and what calling one with two arguments does:
\<close>

datatype py_value =
    PyBool bool
  | PyFunction "string \<Rightarrow> string \<Rightarrow> event list \<times> bool"

fun py_call :: "py_value \<Rightarrow> string \<Rightarrow> string \<Rightarrow> py_error + (event list \<times> bool)" where
  "py_call (PyBool b) x y = Inl (TypeError (CHR 0x27 # ''bool' object is not callable''))"
| "py_call (PyFunction f) x y = Inr (f x y)"

section \<open>Reconciliation: \_process\_rendered\_files\<close>

text \<open>Line 445: \<^verbatim>\<open>slot_info['path'].replace('#', f"{frame:04d}")\<close>.\<close>

definition substitute_frame :: "string \<Rightarrow> int \<Rightarrow> string" where
  "substitute_frame slot_path frame_number = str_replace CHR ''#'' (format_04d frame_number) slot_path"

text \<open>
  \<^verbatim>\<open>original_path\<close> is \<^const>\<open>None\<close> or a string; Python's truth test rejects both
  \<^const>\<open>None\<close> and the empty string.
\<close>

fun truthy :: "string option \<Rightarrow> bool" where
  "truthy None = False"
| "truthy (Some s) = (s \<noteq> [])"

text \<open>The inner loop over a node's slots (lines 443 to 453), leaving at the first match.\<close>

fun match_slots ::
  "string \<Rightarrow> int \<Rightarrow> string \<Rightarrow> slot_info list \<Rightarrow> string option \<Rightarrow> string option" where
  "match_slots rel_path frame_number base [] original_path = original_path"
| "match_slots rel_path frame_number base (slot_info # rest) original_path =
     (let slot_path = substitute_frame (si_path slot_info) frame_number;
          potential_path = path_join base slot_path
      in if basename rel_path = basename slot_path then Some potential_path
         else match_slots rel_path frame_number base rest original_path)"

text \<open>The outer loop over the dictionary's items (lines 440 to 456).\<close>

fun match_nodes ::
  "string \<Rightarrow> int \<Rightarrow> snapshot \<Rightarrow> string option \<Rightarrow> string option" where
  "match_nodes rel_path frame_number [] original_path = original_path"
| "match_nodes rel_path frame_number ((node_index, node_info) # rest) original_path =
     (let original_path' =
            match_slots rel_path frame_number (ni_base_path node_info)
              (ni_file_slots node_info) original_path
      in if truthy original_path' then original_path'
         else match_nodes rel_path frame_number rest original_path')"

text \<open>
  Lines 437 to 466: the destination of one produced file. \<open>blend_dir\<close> is
  \<^verbatim>\<open>bpy.path.abspath("//")\<close>, the directory of the open scene file.
\<close>

definition resolve_original_path :: "string \<Rightarrow> frame_result \<Rightarrow> string \<Rightarrow> string" where
  "resolve_original_path blend_dir result rel_path =
     (case match_nodes rel_path (frame result) (original_paths result) None of
        Some p \<Rightarrow>
          (if p \<noteq> [] then p
           else (case (if original_paths result \<noteq> [] then map_of (original_paths result) 0 else None) of
                   Some first \<Rightarrow> path_join (ni_base_path first) rel_path
                 | None \<Rightarrow> path_join (path_join blend_dir ''modal_render_output'') rel_path))
      | None \<Rightarrow>
          (case (if original_paths result \<noteq> [] then map_of (original_paths result) 0 else None) of
             Some first \<Rightarrow> path_join (ni_base_path first) rel_path
           | None \<Rightarrow> path_join (path_join blend_dir ''modal_render_output'') rel_path))"

text \<open>
  The loop over \<^verbatim>\<open>files.items()\<close>. For each file: resolve, place it, and when the
  flag is set call the name \<^verbatim>\<open>upload_to_dropbox\<close>, which here is the flag itself.
  An exception ends the loop. The result is the effects so far and that exception, if any.
\<close>

fun process_files ::
  "local_env \<Rightarrow> string \<Rightarrow> frame_result \<Rightarrow> bool \<Rightarrow> string \<Rightarrow> (string, string) dict \<Rightarrow>
   event list \<times> py_error option" where
  "process_files env blend_dir result upload_flag dropbox_folder [] = ([], None)"
| "process_files env blend_dir result upload_flag dropbox_folder ((rel_path, file_path) # rest) =
     (let original_path = resolve_original_path blend_dir result rel_path in
      case place_file env original_path file_path of
        (placed, Some e) \<Rightarrow> (placed, Some e)
      | (placed, None) \<Rightarrow>
          if upload_flag then
            (case py_call (PyBool upload_flag) original_path
                    (path_join dropbox_folder (basename original_path)) of
               Inl e \<Rightarrow> (placed, Some e)
             | Inr (evs, ok) \<Rightarrow>
                 (case process_files env blend_dir result upload_flag dropbox_folder rest of
                    (evs', r) \<Rightarrow> (placed @ evs @ evs', r)))
          else
            (case process_files env blend_dir result upload_flag dropbox_folder rest of
               (evs', r) \<Rightarrow> (placed @ evs', r)))"

definition process_rendered_files ::
  "local_env \<Rightarrow> string \<Rightarrow> frame_result \<Rightarrow> bool \<Rightarrow> string \<Rightarrow>
   event list \<times> py_error option" where
  "process_rendered_files env blend_dir result upload_flag dropbox_folder =
     process_files env blend_dir result upload_flag dropbox_folder (files result)"

section \<open>The submit operator\<close>

datatype render_kind = FRAME | ANIMATION | RANGE

datatype status = FINISHED | CANCELLED

text \<open>How a call of the operator ends: it returns a status or it is left by an exception.\<close>

datatype outcome = Returned status | Raised py_error

text \<open>The operator's properties (\<^verbatim>\<open>self\<close>).\<close>

record operator =
  render_type :: render_kind
  start_frame :: int
  end_frame :: int
  gpu_enabled :: bool
  max_containers :: int
  prop_upload_to_dropbox :: bool
  dropbox_folder :: string

text \<open>
  What the operator reads from Blender: \<^verbatim>\<open>bpy.data.scenes\<close>, \<^verbatim>\<open>bpy.data.filepath\<close>
  (empty for a scene never saved), \<^verbatim>\<open>bpy.path.abspath("//")\<close>, the scene's current
  frame and frame range, and the clock \<^verbatim>\<open>int(time.time())\<close>.
\<close>

record blender =
  scenes :: "scene list"
  filepath :: string
  blend_dir :: string
  frame_current :: int
  frame_start :: int
  frame_end :: int
  time_now :: int

text \<open>
  The remote side: entering the session (\<^verbatim>\<open>with modal.Session() as session\<close>) and
  the two remote functions; each either raises or returns.
\<close>

record modal =
  session_enter :: "py_error option"
  prepare_blend_file :: "string \<Rightarrow> py_error + string"
  remote_render_frame :: "string \<Rightarrow> int \<Rightarrow> py_error + frame_result"

definition submitter_dir :: string where
  "submitter_dir = ''/Users/derek/Skunkworks Dropbox/studio/submitter''"

text \<open>
  \<^verbatim>\<open>list(render_frame.map(args, ...))\<close>: the results come back in the order of the
  inputs, and the exception of a failed input is raised to the caller in place of the
  list, so no result reaches the caller then.
\<close>

fun render_map ::
  "(string \<Rightarrow> int \<Rightarrow> py_error + frame_result) \<Rightarrow> (string \<times> int) list \<Rightarrow>
   py_error + frame_result list" where
  "render_map f [] = Inr []"
| "render_map f ((blend, frame_number) # args) =
     (case f blend frame_number of
        Inl e \<Rightarrow> Inl e
      | Inr r \<Rightarrow>
          (case render_map f args of
             Inl e \<Rightarrow> Inl e
           | Inr rs \<Rightarrow> Inr (r # rs)))"

text \<open>Lines 409 and 410: the loop over the results, left at the first exception.\<close>

fun process_results ::
  "local_env \<Rightarrow> string \<Rightarrow> bool \<Rightarrow> string \<Rightarrow> frame_result list \<Rightarrow>
   event list \<times> py_error option" where
  "process_results env here upload_flag folder [] = ([], None)"
| "process_results env here upload_flag folder (result # results) =
     (case process_rendered_files env here result upload_flag folder of
        (evs, Some e) \<Rightarrow> (evs, Some e)
      | (evs, None) \<Rightarrow>
          (case process_results env here upload_flag folder results of
             (evs', r) \<Rightarrow> (evs @ evs', r)))"

text \<open>
  The body of the \<^verbatim>\<open>with\<close> block (lines 377 to 412): the effects it had and the
  exception that left it, if any.
\<close>

definition render_body ::
  "operator \<Rightarrow> blender \<Rightarrow> local_env \<Rightarrow> modal \<Rightarrow> string \<Rightarrow>
   event list \<times> py_error option" where
  "render_body self bl env md temp_blend =
     (case prepare_blend_file md temp_blend of
        Inl e \<Rightarrow> ([RemotePrepare temp_blend], Some e)
      | Inr volume_blend_path \<Rightarrow>
          if render_type self = FRAME then
            (let frame_number = frame_current bl in
             case remote_render_frame md volume_blend_path frame_number of
               Inl e \<Rightarrow>
                 ([RemotePrepare temp_blend, RemoteRender volume_blend_path frame_number], Some e)
             | Inr result \<Rightarrow>
                 (case process_rendered_files env (blend_dir bl) result
                         (prop_upload_to_dropbox self) (dropbox_folder self) of
                    (evs, Some e) \<Rightarrow>
                      ([RemotePrepare temp_blend, RemoteRender volume_blend_path frame_number]
                         @ evs, Some e)
                  | (evs, None) \<Rightarrow>
                      ([RemotePrepare temp_blend, RemoteRender volume_blend_path frame_number]
                         @ evs
                         @ [Report ''INFO'' (''Rendered frame '' @ str_int frame_number
                                              @ '' saved to original output paths'')],
                       None)))
          else
            (let start = (if render_type self = ANIMATION then frame_start bl
                          else start_frame self);
                 end = (if render_type self = ANIMATION then frame_end bl
                        else end_frame self);
                 args = map (\<lambda>frame_number. (volume_blend_path, frame_number)) [start .. end]
             in case render_map (remote_render_frame md) args of
                  Inl e \<Rightarrow>
                    ([RemotePrepare temp_blend, RemoteRenderMap args (max_containers self)],
                     Some e)
                | Inr results \<Rightarrow>
                    (case process_results env (blend_dir bl) (prop_upload_to_dropbox self)
                            (dropbox_folder self) results of
                       (evs, Some e) \<Rightarrow>
                         ([RemotePrepare temp_blend, RemoteRenderMap args (max_containers self)]
                            @ evs, Some e)
                     | (evs, None) \<Rightarrow>
                         ([RemotePrepare temp_blend, RemoteRenderMap args (max_containers self)]
                            @ evs
                            @ [Report ''INFO''
                                 ''All frames rendered and saved to original output paths''],
                          None))))"

text \<open>
  The body of the \<^verbatim>\<open>try\<close> (lines 375 to 417): enter the session, run the block,
  close the tracker. Reaching its end without an exception is the return of the
  finished status.
\<close>

definition try_body ::
  "operator \<Rightarrow> blender \<Rightarrow> local_env \<Rightarrow> modal \<Rightarrow> string \<Rightarrow>
   event list \<times> py_error option" where
  "try_body self bl env md temp_blend =
     (case session_enter md of
        Some e \<Rightarrow> ([], Some e)
      | None \<Rightarrow>
          (case render_body self bl env md temp_blend of
             (evs, Some e) \<Rightarrow> (evs, Some e)
           | (evs, None) \<Rightarrow>
               (case tracker_close env of
                  Some e \<Rightarrow> (evs, Some e)
                | None \<Rightarrow> (evs @ [TrackerClose], None))))"

text \<open>
  Lines 361 to 363: the name of the copy of the scene in the submitter directory, made of
  the current file's name without its extension and the time stamp.
\<close>

definition temp_blend_path :: "blender \<Rightarrow> string" where
  "temp_blend_path bl =
     (let filename = basename (filepath bl) in
      path_join submitter_dir
        (splitext_root filename @ ''_'' @ str_int (time_now bl) @ ''.blend''))"

text \<open>
  \<^verbatim>\<open>ModalVFXRenderFarmOperator.execute\<close>: how the call ends and its effects in order.
  The creation of the submitter directory, the save of the scene copy and the opening of
  the tracker stand before the \<^verbatim>\<open>try\<close>, so an exception of theirs leaves the
  operator; an exception inside the \<^verbatim>\<open>try\<close> is reported, the tracker is closed (an
  exception of that close leaves the operator as well), and the status is cancelled.
\<close>

definition execute ::
  "operator \<Rightarrow> blender \<Rightarrow> local_env \<Rightarrow> modal \<Rightarrow> outcome \<times> event list" where
  "execute self bl env md =
     (if get_file_output_nodes (scenes bl) = [] then
        (Returned CANCELLED,
         [Report ''ERROR'' ''No File Output nodes found in the compositor. Please set up your output in the compositor first.''])
      else
        (case os_makedirs env submitter_dir of
           Some e \<Rightarrow> (Raised e, [])
         | None \<Rightarrow>
             if filepath bl = [] then
               (Returned CANCELLED,
                [MakeDirs submitter_dir,
                 Report ''ERROR'' ''Please save your file before rendering.''])
             else
               (let temp_blend = temp_blend_path bl in
                case save_as_mainfile env temp_blend of
                  Some e \<Rightarrow> (Raised e, [MakeDirs submitter_dir])
                | None \<Rightarrow>
                    (let db_path = path_join submitter_dir ''asset_tracker.db'' in
                     case tracker_init env db_path of
                       (opened, Some e) \<Rightarrow>
                         (Raised e, [MakeDirs submitter_dir, SaveAsMainfile temp_blend] @ opened)
                     | (opened, None) \<Rightarrow>
                         (let before = [MakeDirs submitter_dir, SaveAsMainfile temp_blend]
                                @ opened
                                @ [Report ''INFO'' ''Starting render on Modal. Using File Output nodes from compositor.'']
                          in case try_body self bl env md temp_blend of
                               (evs, None) \<Rightarrow> (Returned FINISHED, before @ evs)
                             | (evs, Some e) \<Rightarrow>
                                 (case tracker_close env of
                                    Some e' \<Rightarrow>
                                      (Raised e',
                                       before @ evs
                                         @ [Report ''ERROR''
                                              (''Error rendering on Modal: '' @ error_str e)])
                                  | None \<Rightarrow>
                                      (Returned CANCELLED,
                                       before @ evs
                                         @ [Report ''ERROR''
                                              (''Error rendering on Modal: '' @ error_str e),
                                            TrackerClose])))))))"

section \<open>Example inputs\<close>

text \<open>
  The two-node graph of the specification's example: node \<open>main\<close> with slot
  \<^verbatim>\<open>main.####.exr\<close> and node \<open>data\<close> with slot \<^verbatim>\<open>data.####.exr\<close>.
\<close>

definition example_nodes :: "output_node list" where
  "example_nodes =
     [\<lparr>node_type = ''OUTPUT_FILE'', base_path = ''/out/main'',
       file_slots = [\<lparr>path = ''main.####.exr'',
                      format = \<lparr>file_format = ''OPEN_EXR'', color_depth = Some ''32'',
                                exr_codec = Some ''ZIP'', color_mode = Some ''RGBA''\<rparr>\<rparr>]\<rparr>,
      \<lparr>node_type = ''OUTPUT_FILE'', base_path = ''/out/data'',
       file_slots = [\<lparr>path = ''data.####.exr'',
                      format = \<lparr>file_format = ''OPEN_EXR'', color_depth = Some ''32'',
                                exr_codec = Some ''ZIP'', color_mode = Some ''RGB''\<rparr>\<rparr>]\<rparr>]"

definition example_snapshot :: snapshot where
  "example_snapshot = snd (redirect example_nodes temp_output_dir)"

definition example_result :: frame_result where
  "example_result =
     \<lparr>frame = 3,
      files = [(''main.0003.exr'', ''/renders/temp/main.0003.exr''),
               (''data.0003.exr'', ''/renders/temp/data.0003.exr'')],
      original_paths = example_snapshot\<rparr>"

text \<open>
  An engine that writes one file per frame into the scratch directory, and one that
  fails on frame 12.
\<close>

definition engine_ok :: "output_node list \<Rightarrow> int \<Rightarrow> py_error + (string, string) dict" where
  "engine_ok nodes frame_number =
     Inr [(''main.'' @ format_04d frame_number @ ''.exr'',
           path_join temp_output_dir (''main.'' @ format_04d frame_number @ ''.exr''))]"

definition engine_fail12 :: "output_node list \<Rightarrow> int \<Rightarrow> py_error + (string, string) dict" where
  "engine_fail12 nodes frame_number =
     (if frame_number = 12 then Inl (RenderError ''frame 12 failed'')
      else engine_ok nodes frame_number)"

definition example_modal ::
  "(output_node list \<Rightarrow> int \<Rightarrow> py_error + (string, string) dict) \<Rightarrow> modal" where
  "example_modal engine =
     \<lparr>session_enter = None,
      prepare_blend_file = (\<lambda>p. Inr (''/assets/blend_files/'' @ basename p)),
      remote_render_frame = (\<lambda>blend frame_number. snd (render_frame engine example_nodes frame_number))\<rparr>"

text \<open>
  A machine on which every local operation succeeds, and one on which the submitter
  directory cannot be created.
\<close>

definition env_ok :: local_env where
  "env_ok =
     \<lparr>makedirs = (\<lambda>d. None), read_bytes = (\<lambda>p. None), write_bytes = (\<lambda>p. None),
      save_as_mainfile = (\<lambda>p. None), tracker_connect = (\<lambda>p. None), tracker_close = None\<rparr>"

definition env_no_submitter :: local_env where
  "env_no_submitter =
     env_ok\<lparr>makedirs :=
              (\<lambda>d. if d = submitter_dir
                    then Some (OSError ''[Errno 13] Permission denied: /Users'')
                    else None)\<rparr>"

definition example_blender :: blender where
  "example_blender =
     \<lparr>scenes = [\<lparr>node_tree = Some example_nodes, use_nodes = True\<rparr>],
      filepath = ''/proj/shot.blend'',
      blend_dir = ''/proj/'',
      frame_current = 1, frame_start = 1, frame_end = 250,
      time_now = 1700000000\<rparr>"

definition example_operator :: operator where
  "example_operator =
     \<lparr>render_type = RANGE, start_frame = 10, end_frame = 14, gpu_enabled = True,
      max_containers = 2, prop_upload_to_dropbox = False, dropbox_folder = ''/Renders''\<rparr>"

section \<open>Redirect and restore\<close>

lemma capture_slots_map:
  "capture_slots slots acc =
     acc @ map (\<lambda>s. \<lparr>si_path = path s, si_format = format s\<rparr>) slots"
  by (induction slots arbitrary: acc) simp_all

lemma dict_set_fresh: "k \<notin> fst ` set d \<Longrightarrow> dict_set d k v = d @ [(k, v)]"
  by (induction d) auto

lemma redirect_loop_closed:
  "\<forall>k \<in> fst ` set snap. k < i \<Longrightarrow>
   redirect_loop i nodes scratch snap =
     (map (\<lambda>n. n\<lparr>base_path := scratch\<rparr>) nodes,
      snap @ zip [i ..< i + length nodes]
               (map (\<lambda>n. \<lparr>ni_base_path = base_path n,
                            ni_file_slots = capture_slots (file_slots n) []\<rparr>) nodes))"
proof (induction nodes arbitrary: i snap)
  case Nil
  then show ?case by simp
next
  case (Cons node nodes)
  have fresh: "i \<notin> fst ` set snap" using Cons.prems by auto
  let ?snap' = "snap @ [(i, \<lparr>ni_base_path = base_path node,
                             ni_file_slots = capture_slots (file_slots node) []\<rparr>)]"
  have keys: "\<forall>k \<in> fst ` set ?snap'. k < Suc i" using Cons.prems by auto
  have upt: "[i ..< i + length (node # nodes)] = i # [Suc i ..< Suc i + length nodes]"
    using upt_conv_Cons [of i "Suc (i + length nodes)"] by simp
  show ?case
    unfolding upt using Cons.IH [OF keys] by (simp add: dict_set_fresh [OF fresh])
qed

lemma redirect_closed:
  "redirect nodes scratch =
     (map (\<lambda>n. n\<lparr>base_path := scratch\<rparr>) nodes,
      zip [0 ..< length nodes]
          (map (\<lambda>n. \<lparr>ni_base_path = base_path n,
                       ni_file_slots = capture_slots (file_slots n) []\<rparr>) nodes))"
  unfolding redirect_def using redirect_loop_closed [of "[]" 0 nodes scratch] by simp

lemma restore_slots_id:
  "length slots + j \<le> length infos \<Longrightarrow>
   \<forall>k < length slots. si_path (infos ! (j + k)) = path (slots ! k) \<Longrightarrow>
   restore_slots j slots infos = slots"
proof (induction slots arbitrary: j)
  case Nil
  then show ?case by simp
next
  case (Cons slot slots)
  have "si_path (infos ! j) = path slot"
    using Cons.prems(2) by (auto dest: spec [of _ 0])
  moreover have "restore_slots (Suc j) slots infos = slots"
  proof (rule Cons.IH)
    show "length slots + Suc j \<le> length infos" using Cons.prems(1) by simp
    show "\<forall>k<length slots. si_path (infos ! (Suc j + k)) = path (slots ! k)"
      using Cons.prems(2) by (auto dest: spec [of _ "Suc k" for k])
  qed
  ultimately show ?case using Cons.prems(1) by simp
qed

lemma restore_slots_capture: "restore_slots 0 slots (capture_slots slots []) = slots"
  by (rule restore_slots_id) (simp_all add: capture_slots_map)

lemma restore_loop_id:
  "\<forall>k < length nodes. map_of snap (i + k) =
      Some \<lparr>ni_base_path = base_path (nodes ! k),
            ni_file_slots = capture_slots (file_slots (nodes ! k)) []\<rparr> \<Longrightarrow>
   restore_loop i (map (\<lambda>n. n\<lparr>base_path := scratch\<rparr>) nodes) snap = nodes"
proof (induction nodes arbitrary: i)
  case Nil
  then show ?case by simp
next
  case (Cons node nodes)
  have here: "map_of snap i = Some \<lparr>ni_base_path = base_path node,
                                     ni_file_slots = capture_slots (file_slots node) []\<rparr>"
    using Cons.prems by (auto dest: spec [of _ 0])
  have rest: "restore_loop (Suc i) (map (\<lambda>n. n\<lparr>base_path := scratch\<rparr>) nodes) snap = nodes"
  proof (rule Cons.IH, intro allI impI)
    fix k assume "k < length nodes"
    then show "map_of snap (Suc i + k) =
        Some \<lparr>ni_base_path = base_path (nodes ! k),
              ni_file_slots = capture_slots (file_slots (nodes ! k)) []\<rparr>"
      using Cons.prems by (auto dest: spec [of _ "Suc k"])
  qed
  show ?case using here rest by (simp add: restore_slots_capture)
qed

lemma map_of_zip_upt:
  "k < length vs \<Longrightarrow> map_of (zip [0 ..< length vs] vs) k = Some (vs ! k)"
proof -
  assume k: "k < length vs"
  have "distinct (map fst (zip [0 ..< length vs] vs))" by simp
  moreover have "(k, vs ! k) \<in> set (zip [0 ..< length vs] vs)"
    using k by (force simp: set_zip)
  ultimately show ?thesis by (rule map_of_is_SomeI)
qed

lemma restore_redirect: "restore (fst (redirect G S)) (snd (redirect G S)) = G"
  unfolding restore_def redirect_closed fst_conv snd_conv
proof (rule restore_loop_id [where i = 0, simplified], intro allI impI)
  fix k assume "k < length G"
  then show "map_of (zip [0 ..< length G]
                 (map (\<lambda>n. \<lparr>ni_base_path = base_path n,
                              ni_file_slots = capture_slots (file_slots n) []\<rparr>) G)) k
     = Some \<lparr>ni_base_path = base_path (G ! k),
             ni_file_slots = capture_slots (file_slots (G ! k)) []\<rparr>"
    using map_of_zip_upt [of k "map (\<lambda>n. \<lparr>ni_base_path = base_path n,
                              ni_file_slots = capture_slots (file_slots n) []\<rparr>) G"]
    by simp
qed

text \<open>
  C4. Redirecting the output nodes to any scratch directory and then restoring them from
  the snapshot that the redirect captured gives back the nodes as they were: every base
  path and every slot path (indeed every field) has its value from before the redirect.
\<close>

theorem redirect_restore_round_trip:
  "restore (fst (redirect G S)) (snd (redirect G S)) = G
   \<and> map base_path (restore (fst (redirect G S)) (snd (redirect G S))) = map base_path G
   \<and> map (map path \<circ> file_slots) (restore (fst (redirect G S)) (snd (redirect G S)))
       = map (map path \<circ> file_slots) G"
  by (simp only: restore_redirect simp_thms)

text \<open>
  C5. The redirect step stores, under each node's index in node order, the node's base
  path and the list of its slots' paths (and formats) in slot order; afterwards every
  node's base path is the scratch directory, and the node type, the slots, their paths
  and their formats are what they were.
\<close>

theorem redirect_captures_and_sets_base_path:
  "map fst (snd (redirect G S)) = [0 ..< length G]
   \<and> map (ni_base_path \<circ> snd) (snd (redirect G S)) = map base_path G
   \<and> map (map si_path \<circ> ni_file_slots \<circ> snd) (snd (redirect G S))
       = map (map path \<circ> file_slots) G
   \<and> map (map si_format \<circ> ni_file_slots \<circ> snd) (snd (redirect G S))
       = map (map format \<circ> file_slots) G
   \<and> fst (redirect G S) = map (\<lambda>n. n\<lparr>base_path := S\<rparr>) G
   \<and> map base_path (fst (redirect G S)) = replicate (length G) S
   \<and> map file_slots (fst (redirect G S)) = map file_slots G
   \<and> map node_type (fst (redirect G S)) = map node_type G"
proof -
  have vals: "map snd (snd (redirect G S)) =
      map (\<lambda>n. \<lparr>ni_base_path = base_path n,
                   ni_file_slots = map (\<lambda>s. \<lparr>si_path = path s, si_format = format s\<rparr>)
                                     (file_slots n)\<rparr>) G"
    by (simp add: redirect_closed capture_slots_map)
  have keys: "map fst (snd (redirect G S)) = [0 ..< length G]"
    by (simp add: redirect_closed)
  have bases: "map (ni_base_path \<circ> snd) (snd (redirect G S)) = map base_path G"
    using arg_cong [OF vals, of "map ni_base_path"] by (simp add: comp_def)
  have paths: "map (map si_path \<circ> ni_file_slots \<circ> snd) (snd (redirect G S))
       = map (map path \<circ> file_slots) G"
    using arg_cong [OF vals, of "map (map si_path \<circ> ni_file_slots)"] by (simp add: comp_def)
  have formats: "map (map si_format \<circ> ni_file_slots \<circ> snd) (snd (redirect G S))
       = map (map format \<circ> file_slots) G"
    using arg_cong [OF vals, of "map (map si_format \<circ> ni_file_slots)"] by (simp add: comp_def)
  have nodes: "fst (redirect G S) = map (\<lambda>n. n\<lparr>base_path := S\<rparr>) G"
    by (simp add: redirect_closed)
  have base: "map base_path (fst (redirect G S)) = replicate (length G) S"
    by (simp add: nodes comp_def map_replicate_const)
  have slots: "map file_slots (fst (redirect G S)) = map file_slots G"
    by (simp add: nodes comp_def)
  have types: "map node_type (fst (redirect G S)) = map node_type G"
    by (simp add: nodes comp_def)
  from keys bases paths formats nodes base slots types show ?thesis by blast
qed

section \<open>AssetTracker: recording twice\<close>

text \<open>
  C8. After \<open>record(p, h1, t1)\<close> and then \<open>record(p, h2, t2)\<close>, \<open>lookup(p)\<close> is \<open>h2\<close>,
  and the table holds exactly one row for \<open>p\<close>, the second one: the row was replaced,
  not appended to.
\<close>

theorem update_asset_twice_lookup:
  "get_asset_hash (update_asset (update_asset tbl p h1 t1) p h2 t2) p = Some h2
   \<and> filter (\<lambda>row. fst row = p) (update_asset (update_asset tbl p h1 t1) p h2 t2)
       = [(p, h2, t2)]"
  by (simp add: get_asset_hash_def update_asset_def)

section \<open>The render unit and its exits\<close>

text \<open>
  C3 (amended). The per-frame unit restores the captured state only on the path where the
  render step returns: then every node's base path and every slot's path is written back
  and the nodes are what they were before the unit ran. When the render step raises, the
  exception leaves the unit at once, nothing is written back, and every node's base path
  is still the scratch directory.
\<close>

theorem render_frame_restores_on_success_only:
  "(render_and_collect (fst (redirect G temp_output_dir)) f = Inr produced \<longrightarrow>
      fst (render_frame render_and_collect G f) = G
      \<and> snd (render_frame render_and_collect G f)
          = Inr \<lparr>frame = f, files = produced, original_paths = snd (redirect G temp_output_dir)\<rparr>)
   \<and> (render_and_collect (fst (redirect G temp_output_dir)) f = Inl e \<longrightarrow>
      render_frame render_and_collect G f
        = (map (\<lambda>n. n\<lparr>base_path := temp_output_dir\<rparr>) G, Inl e))"
proof -
  obtain R snap where rs: "redirect G temp_output_dir = (R, snap)" by (cases "redirect G temp_output_dir")
  have restored: "restore R snap = G" using restore_redirect [of G temp_output_dir] by (simp add: rs)
  have R: "R = map (\<lambda>n. n\<lparr>base_path := temp_output_dir\<rparr>) G"
    using redirect_closed [of G temp_output_dir] by (simp add: rs)
  show ?thesis
    by (simp add: render_frame_def rs restored R [symmetric])
qed

theorem render_frame_restore_witness:
  "fst (render_frame engine_ok example_nodes 12) = example_nodes
   \<and> render_frame engine_fail12 example_nodes 12
        = (map (\<lambda>n. n\<lparr>base_path := temp_output_dir\<rparr>) example_nodes, Inl (RenderError ''frame 12 failed''))"
proof -
  have ok: "engine_ok (fst (redirect example_nodes temp_output_dir)) 12
      = Inr [(''main.0012.exr'', ''/renders/temp/main.0012.exr'')]"
    by code_simp
  have bad: "engine_fail12 (fst (redirect example_nodes temp_output_dir)) 12
      = Inl (RenderError ''frame 12 failed'')"
    by code_simp
  from render_frame_restores_on_success_only [of engine_ok example_nodes 12 "[(''main.0012.exr'', ''/renders/temp/main.0012.exr'')]"] ok
  have a: "fst (render_frame engine_ok example_nodes 12) = example_nodes" by blast
  from render_frame_restores_on_success_only [of engine_fail12 example_nodes 12 _ "RenderError ''frame 12 failed''"] bad
  have b: "render_frame engine_fail12 example_nodes 12
        = (map (\<lambda>n. n\<lparr>base_path := temp_output_dir\<rparr>) example_nodes, Inl (RenderError ''frame 12 failed''))"
    by blast
  from a b show ?thesis by simp
qed

text \<open>
  The claim as stated fails on the example graph: the engine raises on frame 12, and on
  leaving the unit both base paths are the scratch directory, not the configured ones.
\<close>

theorem render_frame_failure_leaves_redirect:
  "map base_path (fst (render_frame engine_fail12 example_nodes 12)) = [''/renders/temp'', ''/renders/temp'']
   \<and> map base_path example_nodes = [''/out/main'', ''/out/data'']
   \<and> snd (render_frame engine_fail12 example_nodes 12) = Inl (RenderError ''frame 12 failed'')"
  by code_simp

section \<open>Placeholder substitution\<close>

text \<open>
  C1. Placeholder substitution evaluated on the specification's own example. The code
  replaces each single \<open>#\<close> by the four-digit frame number, so the run of four in
  \<^verbatim>\<open>main.####.exr\<close> becomes sixteen digits for frame 7 and the result is not
  \<^verbatim>\<open>main.0007.exr\<close>.
\<close>

theorem substitute_frame_run_of_hashes:
  "substitute_frame ''main.####.exr'' 7 = ''main.0007000700070007.exr''
   \<and> substitute_frame ''main.####.exr'' 7 \<noteq> ''main.0007.exr''
   \<and> format_04d 7 = ''0007''"
  by code_simp

section \<open>Reconciliation\<close>

text \<open>
  C6. Reconciliation evaluated on the specification's two-node example for frame 3. No
  slot matches either produced file, because the substituted slot paths are
  \<^verbatim>\<open>main.0003000300030003.exr\<close> and \<^verbatim>\<open>data.0003000300030003.exr\<close>; both files take
  the fallback and land under the first node's base path, so \<^verbatim>\<open>data.0003.exr\<close> is
  resolved to \<^verbatim>\<open>/out/main/data.0003.exr\<close> and not to \<^verbatim>\<open>/out/data/data.0003.exr\<close>.
\<close>

theorem reconcile_two_node_example:
  "match_nodes ''main.0003.exr'' 3 example_snapshot None = None
   \<and> match_nodes ''data.0003.exr'' 3 example_snapshot None = None
   \<and> resolve_original_path ''/proj/'' example_result ''main.0003.exr'' = ''/out/main/main.0003.exr''
   \<and> resolve_original_path ''/proj/'' example_result ''data.0003.exr'' = ''/out/main/data.0003.exr''
   \<and> resolve_original_path ''/proj/'' example_result ''data.0003.exr''
       \<noteq> path_join ''/out/data'' ''data.0003.exr''"
  by code_simp

lemma match_slots_none:
  "\<forall>si \<in> set infos. basename rel \<noteq> basename (substitute_frame (si_path si) f) \<Longrightarrow>
   match_slots rel f base infos acc = acc"
  by (induction infos) (simp_all add: Let_def)

lemma match_nodes_none:
  "\<forall>entry \<in> set snap. \<forall>si \<in> set (ni_file_slots (snd entry)).
      basename rel \<noteq> basename (substitute_frame (si_path si) f) \<Longrightarrow>
   match_nodes rel f snap None = None"
proof (induction snap)
  case Nil
  then show ?case by simp
next
  case (Cons entry snap)
  obtain i info where entry: "entry = (i, info)" by (cases entry)
  have "match_slots rel f (ni_base_path info) (ni_file_slots info) None = None"
    using Cons.prems by (intro match_slots_none) (simp add: entry)
  moreover have "match_nodes rel f snap None = None"
    using Cons.prems by (intro Cons.IH) simp
  ultimately show ?case by (simp add: entry)
qed

text \<open>
  C7. For a snapshot as the render unit builds it (node indices 0, 1, ... in order) and a
  produced file whose basename equals the basename of no substituted slot path of any
  node, the destination is the first node's base path joined with the raw relative path
  when the snapshot has a node, and otherwise the directory \<^verbatim>\<open>modal_render_output\<close>
  under the scene's own directory joined with the raw relative path.
\<close>

theorem unmatched_file_fallback:
  assumes keys: "map fst (original_paths result) = [0 ..< length (original_paths result)]"
    and nomatch: "\<forall>entry \<in> set (original_paths result). \<forall>si \<in> set (ni_file_slots (snd entry)).
      basename rel_path \<noteq> basename (substitute_frame (si_path si) (frame result))"
  shows "resolve_original_path here result rel_path =
     (case original_paths result of
        [] \<Rightarrow> path_join (path_join here ''modal_render_output'') rel_path
      | first # _ \<Rightarrow> path_join (ni_base_path (snd first)) rel_path)"
proof (cases "original_paths result")
  case Nil
  then show ?thesis by (simp add: resolve_original_path_def)
next
  case (Cons first rest)
  have "[0 ..< length (first # rest)] = 0 # [Suc 0 ..< length (first # rest)]"
    by (rule upt_conv_Cons) simp
  then have "fst first = 0" using keys by (simp add: Cons del: upt_Suc)
  then have zero: "map_of (original_paths result) 0 = Some (snd first)"
    by (cases first) (simp add: Cons)
  show ?thesis
    using match_nodes_none [OF nomatch] zero by (simp add: resolve_original_path_def Cons)
qed

theorem fallback_path_witness:
  "resolve_original_path ''/proj/'' example_result ''extra/beauty.png'' = ''/out/main/extra/beauty.png''
   \<and> resolve_original_path ''/proj/'' (example_result\<lparr>original_paths := []\<rparr>) ''extra/beauty.png''
       = ''/proj/modal_render_output/extra/beauty.png''"
proof -
  have k1: "map fst (original_paths example_result) = [0 ..< length (original_paths example_result)]"
    by code_simp
  have n1: "\<forall>entry \<in> set (original_paths example_result). \<forall>si \<in> set (ni_file_slots (snd entry)).
      basename ''extra/beauty.png'' \<noteq> basename (substitute_frame (si_path si) (frame example_result))"
    by code_simp
  have v1: "(case original_paths example_result of
        [] \<Rightarrow> path_join (path_join ''/proj/'' ''modal_render_output'') ''extra/beauty.png''
      | first # _ \<Rightarrow> path_join (ni_base_path (snd first)) ''extra/beauty.png'') = ''/out/main/extra/beauty.png''"
    by code_simp
  have v2: "path_join (path_join ''/proj/'' ''modal_render_output'') ''extra/beauty.png'' = ''/proj/modal_render_output/extra/beauty.png''"
    by code_simp
  have a: "resolve_original_path ''/proj/'' example_result ''extra/beauty.png'' = ''/out/main/extra/beauty.png''"
    using unmatched_file_fallback [OF k1 n1, of "''/proj/''"] v1 by simp
  have b: "resolve_original_path ''/proj/'' (example_result\<lparr>original_paths := []\<rparr>) ''extra/beauty.png''
       = ''/proj/modal_render_output/extra/beauty.png''"
    using unmatched_file_fallback [of "example_result\<lparr>original_paths := []\<rparr>" "''extra/beauty.png''" "''/proj/''"] v2 by simp
  from a b show ?thesis by simp
qed

section \<open>Upload after placement\<close>

text \<open>
  C9. Processing a frame's two files with the upload requested, on a machine where every
  local operation succeeds. The first file is placed; then the call of
  \<^verbatim>\<open>upload_to_dropbox\<close> hits the Boolean parameter of that name and raises a type
  error, which ends the processing: the second file is neither placed nor uploaded, and
  the operator reports the error and returns cancelled. The module-level function, which
  is never reached, would have printed a warning and returned \<^const>\<open>False\<close> for an
  absent credential.
\<close>

theorem upload_requested_raises:
  "process_rendered_files env_ok ''/proj/'' example_result True ''/Renders'' =
     ([MakeDirs ''/out/main'',
       WriteBytes ''/out/main/main.0003.exr'' ''/renders/temp/main.0003.exr'',
       Print ''Saved file to /out/main/main.0003.exr''],
      Some (TypeError (CHR 0x27 # ''bool' object is not callable'')))
   \<and> fst (execute (example_operator\<lparr>prop_upload_to_dropbox := True\<rparr>) example_blender env_ok
              (example_modal engine_ok)) = Returned CANCELLED
   \<and> filter is_write (snd (execute (example_operator\<lparr>prop_upload_to_dropbox := True\<rparr>)
                                example_blender env_ok (example_modal engine_ok)))
       = [WriteBytes ''/out/main/main.0010.exr'' ''/renders/temp/main.0010.exr'']
   \<and> upload_to_dropbox None (\<lambda>tok src dst. None) ''/out/main/main.0003.exr''
         ''/Renders/main.0003.exr''
       = ([Print ''Warning: DROPBOX_API_TOKEN not set, skipping Dropbox upload''], False)"
  by code_simp

section \<open>The submit operator: preconditions\<close>

lemma submitter_dir_nonempty: "os_makedirs env submitter_dir = makedirs env submitter_dir"
  by (simp add: os_makedirs_def submitter_dir_def)

lemma db_dir: "dirname (path_join submitter_dir ''asset_tracker.db'') = submitter_dir"
  by code_simp

text \<open>
  C10 (amended). Without a File Output node the operator returns the cancelled status
  with an error report. With output nodes and a scene that has never been saved, the
  operator first creates the submitter directory: when that succeeds it returns the
  cancelled status with an error report; when it raises, the operator is left by that
  exception, with no status and no report. In all of these cases no remote call has been
  made, neither the scene preparation nor a render.
\<close>

theorem execute_precondition_cancels:
  "(get_file_output_nodes (scenes bl) = [] \<longrightarrow>
      fst (execute self bl env md) = Returned CANCELLED
      \<and> filter is_error_report (snd (execute self bl env md)) \<noteq> [])
   \<and> (get_file_output_nodes (scenes bl) \<noteq> [] \<and> filepath bl = []
        \<and> makedirs env submitter_dir = None \<longrightarrow>
      fst (execute self bl env md) = Returned CANCELLED
      \<and> filter is_error_report (snd (execute self bl env md)) \<noteq> [])
   \<and> (get_file_output_nodes (scenes bl) \<noteq> [] \<and> filepath bl = []
        \<and> makedirs env submitter_dir = Some err \<longrightarrow>
      execute self bl env md = (Raised err, []))
   \<and> (get_file_output_nodes (scenes bl) = [] \<or> filepath bl = [] \<longrightarrow>
      filter is_remote (snd (execute self bl env md)) = [])"
proof -
  have mk: "os_makedirs env submitter_dir = makedirs env submitter_dir"
    by (rule submitter_dir_nonempty)
  show ?thesis
    by (auto simp: execute_def mk split: option.splits)
qed

theorem execute_precondition_witness:
  "execute example_operator (example_blender\<lparr>scenes := []\<rparr>) env_ok (example_modal engine_ok)
     = (Returned CANCELLED, [Report ''ERROR'' ''No File Output nodes found in the compositor. Please set up your output in the compositor first.''])
   \<and> fst (execute example_operator (example_blender\<lparr>filepath := []\<rparr>) env_ok
            (example_modal engine_ok)) = Returned CANCELLED
   \<and> filter is_remote (snd (execute example_operator (example_blender\<lparr>filepath := []\<rparr>) env_ok
                                (example_modal engine_ok))) = []
   \<and> execute example_operator (example_blender\<lparr>filepath := []\<rparr>) env_no_submitter
        (example_modal engine_ok)
       = (Raised (OSError ''[Errno 13] Permission denied: /Users''), [])"
proof -
  let ?unsaved = "example_blender\<lparr>filepath := []\<rparr>"
  let ?empty = "example_blender\<lparr>scenes := []\<rparr>"
  have none: "get_file_output_nodes (scenes ?empty) = []" by simp
  have some: "get_file_output_nodes (scenes ?unsaved) \<noteq> []" by code_simp
  have unsaved: "filepath ?unsaved = []" by simp
  have mk_ok: "makedirs env_ok submitter_dir = None" by code_simp
  have mk_bad: "makedirs env_no_submitter submitter_dir
      = Some (OSError ''[Errno 13] Permission denied: /Users'')"
    by code_simp
  have v: "execute example_operator ?empty env_ok (example_modal engine_ok)
     = (Returned CANCELLED, [Report ''ERROR'' ''No File Output nodes found in the compositor. Please set up your output in the compositor first.''])"
    by (simp add: execute_def)
  from execute_precondition_cancels [of ?unsaved example_operator env_ok "example_modal engine_ok"] some unsaved mk_ok
  have a: "fst (execute example_operator ?unsaved env_ok (example_modal engine_ok))
        = Returned CANCELLED"
    and b: "filter is_remote (snd (execute example_operator ?unsaved env_ok
                                     (example_modal engine_ok))) = []"
    by blast+
  from execute_precondition_cancels [of ?unsaved example_operator env_no_submitter "example_modal engine_ok"
              "OSError ''[Errno 13] Permission denied: /Users''"] some unsaved mk_bad
  have c: "execute example_operator ?unsaved env_no_submitter (example_modal engine_ok)
       = (Raised (OSError ''[Errno 13] Permission denied: /Users''), [])"
    by blast
  from execute_precondition_cancels [of ?empty example_operator env_ok "example_modal engine_ok"] none
  have d: "fst (execute example_operator ?empty env_ok (example_modal engine_ok))
        = Returned CANCELLED"
    by blast
  from a b c d v show ?thesis by simp
qed

text \<open>
  The claim as stated fails for an unsaved scene on a machine where the submitter
  directory cannot be created: the operator is left by the exception of
  \<^verbatim>\<open>os.makedirs\<close>, it returns no cancelled status and reports nothing.
\<close>

theorem unsaved_scene_without_submitter_dir:
  "execute example_operator (example_blender\<lparr>filepath := []\<rparr>) env_no_submitter
     (example_modal engine_ok)
     = (Raised (OSError ''[Errno 13] Permission denied: /Users''), [])
   \<and> filepath (example_blender\<lparr>filepath := []\<rparr>) = []
   \<and> fst (execute example_operator (example_blender\<lparr>filepath := []\<rparr>) env_no_submitter
            (example_modal engine_ok)) \<noteq> Returned CANCELLED
   \<and> filter is_error_report
        (snd (execute example_operator (example_blender\<lparr>filepath := []\<rparr>) env_no_submitter
               (example_modal engine_ok))) = []"
  by code_simp

section \<open>The submit operator: frame ranges\<close>

lemma place_file_ok:
  "snd (place_file env dst src) = None \<Longrightarrow>
   place_file env dst src =
     ([MakeDirs (dirname dst), WriteBytes dst src, Print (''Saved file to '' @ dst)], None)"
  by (simp add: place_file_def split: option.splits)

lemma place_file_quiet:
  "filter is_remote (fst (place_file env dst src)) = []
   \<and> filter is_error_report (fst (place_file env dst src)) = []"
  by (simp add: place_file_def split: option.splits)

lemma place_file_failed_writes:
  "snd (place_file env dst src) \<noteq> None \<Longrightarrow> filter is_write (fst (place_file env dst src)) = []"
  by (simp add: place_file_def split: option.splits)

lemma process_files_quiet:
  "filter is_remote (fst (process_files env d r up folder fs)) = []
   \<and> filter is_error_report (fst (process_files env d r up folder fs)) = []"
proof (induction fs)
  case Nil
  then show ?case by simp
next
  case (Cons entry fs)
  obtain rel src where entry: "entry = (rel, src)" by (cases entry)
  show ?case
    using Cons.IH place_file_quiet [of env "resolve_original_path d r rel" src]
    by (auto simp: entry Let_def split: prod.splits option.splits)
qed

lemma process_files_ok:
  "\<forall>entry \<in> set fs. snd (place_file env (resolve_original_path d r (fst entry)) (snd entry)) = None \<Longrightarrow>
   snd (process_files env d r False folder fs) = None
   \<and> filter is_write (fst (process_files env d r False folder fs))
       = map (\<lambda>entry. WriteBytes (resolve_original_path d r (fst entry)) (snd entry)) fs"
proof (induction fs)
  case Nil
  then show ?case by simp
next
  case (Cons entry fs)
  obtain rel src where entry: "entry = (rel, src)" by (cases entry)
  have here: "place_file env (resolve_original_path d r rel) src =
     ([MakeDirs (dirname (resolve_original_path d r rel)),
       WriteBytes (resolve_original_path d r rel) src,
       Print (''Saved file to '' @ resolve_original_path d r rel)], None)"
    using Cons.prems by (intro place_file_ok) (simp add: entry)
  have rest: "snd (process_files env d r False folder fs) = None
   \<and> filter is_write (fst (process_files env d r False folder fs))
       = map (\<lambda>entry. WriteBytes (resolve_original_path d r (fst entry)) (snd entry)) fs"
    using Cons.prems by (intro Cons.IH) simp
  obtain evs' r' where tl: "process_files env d r False folder fs = (evs', r')"
    by (cases "process_files env d r False folder fs")
  show ?case
    using rest by (simp add: entry here tl Let_def)
qed

lemma process_files_fail:
  "entry \<in> set fs \<Longrightarrow>
   up \<or> snd (place_file env (resolve_original_path d r (fst entry)) (snd entry)) \<noteq> None \<Longrightarrow>
   snd (process_files env d r up folder fs) \<noteq> None"
proof (induction fs)
  case Nil
  then show ?case by simp
next
  case (Cons a fs)
  obtain rel src where a: "a = (rel, src)" by (cases a)
  obtain placed res where pf: "place_file env (resolve_original_path d r rel) src = (placed, res)"
    by (cases "place_file env (resolve_original_path d r rel) src")
  show ?case
  proof (cases res)
    case (Some e)
    then show ?thesis by (simp add: a pf Let_def)
  next
    case None
    show ?thesis
    proof (cases up)
      case True
      then show ?thesis by (simp add: a pf None Let_def)
    next
      case False
      then have "entry \<noteq> a" using Cons.prems(2) pf None a by auto
      then have "entry \<in> set fs" using Cons.prems(1) by simp
      then have "snd (process_files env d r up folder fs) \<noteq> None"
        using Cons.IH Cons.prems(2) by blast
      moreover obtain evs' r' where "process_files env d r up folder fs = (evs', r')"
        by (cases "process_files env d r up folder fs")
      ultimately show ?thesis using False by (simp add: a pf None Let_def)
    qed
  qed
qed

lemma process_results_ok:
  "\<forall>r \<in> set rs. snd (process_rendered_files env d r up folder) = None \<Longrightarrow>
   process_results env d up folder rs =
     (concat (map (\<lambda>r. fst (process_rendered_files env d r up folder)) rs), None)"
proof (induction rs)
  case Nil
  then show ?case by simp
next
  case (Cons r rs)
  obtain evs where one: "process_rendered_files env d r up folder = (evs, None)"
    using Cons.prems by (cases "process_rendered_files env d r up folder") simp
  have "process_results env d up folder rs =
     (concat (map (\<lambda>r. fst (process_rendered_files env d r up folder)) rs), None)"
    using Cons.prems by (intro Cons.IH) simp
  then show ?case by (simp add: one)
qed

lemma process_results_fail:
  "r \<in> set rs \<Longrightarrow> snd (process_rendered_files env d r up folder) \<noteq> None \<Longrightarrow>
   snd (process_results env d up folder rs) \<noteq> None"
proof (induction rs)
  case Nil
  then show ?case by simp
next
  case (Cons a rs)
  obtain evs res where one: "process_rendered_files env d a up folder = (evs, res)"
    by (cases "process_rendered_files env d a up folder")
  show ?case
  proof (cases res)
    case (Some e)
    then show ?thesis by (simp add: one)
  next
    case None
    then have "r \<noteq> a" using Cons.prems(2) one by auto
    then have "r \<in> set rs" using Cons.prems(1) by simp
    then have "snd (process_results env d up folder rs) \<noteq> None"
      using Cons.IH Cons.prems(2) by blast
    moreover obtain evs' r' where "process_results env d up folder rs = (evs', r')"
      by (cases "process_results env d up folder rs")
    ultimately show ?thesis by (simp add: one None)
  qed
qed

lemma process_results_quiet:
  "filter is_remote (fst (process_results env d up folder rs)) = []
   \<and> filter is_error_report (fst (process_results env d up folder rs)) = []"
proof (induction rs)
  case Nil
  then show ?case by simp
next
  case (Cons r rs)
  show ?case
    using Cons.IH process_files_quiet [of env d r up folder "files r"]
    by (auto simp: process_rendered_files_def split: prod.splits option.splits)
qed

lemma render_map_all_ok:
  "\<forall>f \<in> set fs. g vbp f = Inr (res f) \<Longrightarrow>
   render_map g (map (\<lambda>f. (vbp, f)) fs) = Inr (map res fs)"
  by (induction fs) simp_all

lemma render_map_failure:
  "f \<in> set fs \<Longrightarrow> g vbp f = Inl err \<Longrightarrow>
   \<exists>err'. render_map g (map (\<lambda>f. (vbp, f)) fs) = Inl err'"
proof (induction fs)
  case Nil
  then show ?case by simp
next
  case (Cons a fs)
  show ?case
  proof (cases "g vbp a")
    case (Inl e)
    then show ?thesis by simp
  next
    case (Inr r)
    then have "f \<in> set fs" using Cons.prems by auto
    then obtain err' where "render_map g (map (\<lambda>f. (vbp, f)) fs) = Inl err'"
      using Cons.IH Cons.prems(2) by blast
    then show ?thesis using Inr by simp
  qed
qed

lemma process_results_writes:
  assumes "\<forall>r \<in> set rs. \<forall>entry \<in> set (files r).
      snd (place_file env (resolve_original_path d r (fst entry)) (snd entry)) = None"
  shows "snd (process_results env d False folder rs) = None
   \<and> filter is_write (fst (process_results env d False folder rs))
       = concat (map (\<lambda>r. map (\<lambda>entry. WriteBytes (resolve_original_path d r (fst entry))
                                           (snd entry)) (files r)) rs)"
proof -
  have each: "\<forall>r \<in> set rs. snd (process_rendered_files env d r False folder) = None
      \<and> filter is_write (fst (process_rendered_files env d r False folder))
          = map (\<lambda>entry. WriteBytes (resolve_original_path d r (fst entry)) (snd entry)) (files r)"
    using assms process_files_ok [of _ env d _ folder]
    by (simp add: process_rendered_files_def)
  then have "process_results env d False folder rs =
     (concat (map (\<lambda>r. fst (process_rendered_files env d r False folder)) rs), None)"
    by (intro process_results_ok) simp
  then show ?thesis
    using each by (simp add: filter_concat comp_def cong: map_cong)
qed

lemma execute_after_setup:
  assumes nodes: "get_file_output_nodes (scenes bl) \<noteq> []"
    and saved: "filepath bl \<noteq> []"
    and mk: "makedirs env submitter_dir = None"
    and sv: "save_as_mainfile env (temp_blend_path bl) = None"
    and tc: "tracker_connect env (path_join submitter_dir ''asset_tracker.db'') = None"
    and cl: "tracker_close env = None"
    and se: "session_enter md = None"
    and body: "render_body self bl env md (temp_blend_path bl) = (evs, r)"
  shows "execute self bl env md =
     (case r of
        None \<Rightarrow>
          (Returned FINISHED,
           [MakeDirs submitter_dir, SaveAsMainfile (temp_blend_path bl),
            MakeDirs submitter_dir, TrackerOpen (path_join submitter_dir ''asset_tracker.db''),
            Report ''INFO'' ''Starting render on Modal. Using File Output nodes from compositor.'']
           @ evs @ [TrackerClose])
      | Some e \<Rightarrow>
          (Returned CANCELLED,
           [MakeDirs submitter_dir, SaveAsMainfile (temp_blend_path bl),
            MakeDirs submitter_dir, TrackerOpen (path_join submitter_dir ''asset_tracker.db''),
            Report ''INFO'' ''Starting render on Modal. Using File Output nodes from compositor.'']
           @ evs @ [Report ''ERROR'' (''Error rendering on Modal: '' @ error_str e),
                    TrackerClose]))"
proof -
  have mk': "os_makedirs env submitter_dir = None"
    by (simp add: submitter_dir_nonempty mk)
  have init: "tracker_init env (path_join submitter_dir ''asset_tracker.db'')
      = ([MakeDirs submitter_dir, TrackerOpen (path_join submitter_dir ''asset_tracker.db'')], None)"
    by (simp add: tracker_init_def db_dir mk' tc)
  show ?thesis
    by (cases r) (simp_all add: execute_def Let_def nodes saved mk' sv init try_body_def se body cl)
qed

text \<open>
  C2 (amended). Take a frame-range request on a saved scene with output nodes, on a
  machine where the submitter directory, the scene copy and the tracker succeed, with a
  session that opens and a preparation that succeeds. The operator builds the work units
  for exactly the frames from start to end inclusive, in order, and hands them to one
  parallel map. If every remote call returns, no upload is requested and the placement
  of every produced file succeeds (directory creation, read and write), the operator
  finishes without an error report and the files written are those of each frame's
  result, one result per frame in frame order. If some frame's remote call fails, the
  failure is not recorded per frame: the exception is caught around the whole batch,
  exactly one error is reported, the operator returns cancelled, and no file of any
  frame is written. If every remote call returns but an upload is requested or the
  placement of some produced file raises, the operator likewise reports exactly one
  error and returns cancelled.
\<close>

theorem execute_range_all_or_nothing:
  assumes nodes: "get_file_output_nodes (scenes bl) \<noteq> []"
    and saved: "filepath bl \<noteq> []"
    and range: "render_type self = RANGE"
    and mk: "makedirs env submitter_dir = None"
    and sv: "save_as_mainfile env (temp_blend_path bl) = None"
    and tc: "tracker_connect env (path_join submitter_dir ''asset_tracker.db'') = None"
    and cl: "tracker_close env = None"
    and se: "session_enter md = None"
    and prepared: "prepare_blend_file md (temp_blend_path bl) = Inr vbp"
  shows "((\<forall>f \<in> {start_frame self .. end_frame self}. remote_render_frame md vbp f = Inr (res f))
          \<and> \<not> prop_upload_to_dropbox self
          \<and> (\<forall>f \<in> {start_frame self .. end_frame self}. \<forall>entry \<in> set (files (res f)).
                snd (place_file env (resolve_original_path (blend_dir bl) (res f) (fst entry))
                       (snd entry)) = None) \<longrightarrow>
            fst (execute self bl env md) = Returned FINISHED
          \<and> filter is_remote (snd (execute self bl env md))
              = [RemotePrepare (temp_blend_path bl),
                 RemoteRenderMap (map (\<lambda>f. (vbp, f)) [start_frame self .. end_frame self])
                   (max_containers self)]
          \<and> filter is_write (snd (execute self bl env md))
              = concat (map (\<lambda>f. map (\<lambda>entry. WriteBytes
                                       (resolve_original_path (blend_dir bl) (res f) (fst entry))
                                       (snd entry)) (files (res f)))
                          [start_frame self .. end_frame self])
          \<and> filter is_error_report (snd (execute self bl env md)) = [])
       \<and> ((\<exists>f \<in> {start_frame self .. end_frame self}. \<exists>err. remote_render_frame md vbp f = Inl err) \<longrightarrow>
            fst (execute self bl env md) = Returned CANCELLED
          \<and> filter is_remote (snd (execute self bl env md))
              = [RemotePrepare (temp_blend_path bl),
                 RemoteRenderMap (map (\<lambda>f. (vbp, f)) [start_frame self .. end_frame self])
                   (max_containers self)]
          \<and> filter is_write (snd (execute self bl env md)) = []
          \<and> length (filter is_error_report (snd (execute self bl env md))) = 1)
       \<and> ((\<forall>f \<in> {start_frame self .. end_frame self}. remote_render_frame md vbp f = Inr (res f))
          \<and> (\<exists>f \<in> {start_frame self .. end_frame self}. \<exists>entry \<in> set (files (res f)).
                prop_upload_to_dropbox self
                \<or> snd (place_file env (resolve_original_path (blend_dir bl) (res f) (fst entry))
                          (snd entry)) \<noteq> None) \<longrightarrow>
            fst (execute self bl env md) = Returned CANCELLED
          \<and> filter is_remote (snd (execute self bl env md))
              = [RemotePrepare (temp_blend_path bl),
                 RemoteRenderMap (map (\<lambda>f. (vbp, f)) [start_frame self .. end_frame self])
                   (max_containers self)]
          \<and> length (filter is_error_report (snd (execute self bl env md))) = 1)"
proof (intro conjI impI)
  let ?fs = "[start_frame self .. end_frame self]"
  let ?args = "map (\<lambda>f. (vbp, f)) ?fs"
  let ?d = "blend_dir bl"
  let ?up = "prop_upload_to_dropbox self"
  let ?folder = "dropbox_folder self"
  note after = execute_after_setup [OF nodes saved mk sv tc cl se]
  {
    assume ok: "(\<forall>f \<in> {start_frame self .. end_frame self}. remote_render_frame md vbp f = Inr (res f))
          \<and> \<not> ?up
          \<and> (\<forall>f \<in> {start_frame self .. end_frame self}. \<forall>entry \<in> set (files (res f)).
                snd (place_file env (resolve_original_path ?d (res f) (fst entry)) (snd entry)) = None)"
    then have all: "\<forall>f \<in> set ?fs. remote_render_frame md vbp f = Inr (res f)" by simp
    have rm: "render_map (remote_render_frame md) ?args = Inr (map res ?fs)"
      using render_map_all_ok [of ?fs "remote_render_frame md" vbp res] all by simp
    have up: "?up = False" using ok by simp
    have placed: "\<forall>r \<in> set (map res ?fs). \<forall>entry \<in> set (files r).
        snd (place_file env (resolve_original_path ?d r (fst entry)) (snd entry)) = None"
      using ok by auto
    obtain evs x where pr: "process_results env ?d False ?folder (map res ?fs) = (evs, x)"
      by (cases "process_results env ?d False ?folder (map res ?fs)")
    have x: "x = None"
      and writes: "filter is_write evs
        = concat (map (\<lambda>f. map (\<lambda>entry. WriteBytes (resolve_original_path ?d (res f) (fst entry))
                                      (snd entry)) (files (res f))) ?fs)"
      using process_results_writes [OF placed, of ?folder] by (simp_all add: pr comp_def)
    have quiet: "filter is_remote evs = []" "filter is_error_report evs = []"
      using process_results_quiet [of env ?d False ?folder "map res ?fs"] by (simp_all add: pr)
    have body: "render_body self bl env md (temp_blend_path bl) =
        ([RemotePrepare (temp_blend_path bl), RemoteRenderMap ?args (max_containers self)]
          @ evs @ [Report ''INFO'' ''All frames rendered and saved to original output paths''], None)"
      by (simp add: render_body_def prepared range rm up pr x)
    show "fst (execute self bl env md) = Returned FINISHED"
      by (simp add: after [OF body])
    show "filter is_remote (snd (execute self bl env md))
              = [RemotePrepare (temp_blend_path bl), RemoteRenderMap ?args (max_containers self)]"
      by (simp add: after [OF body] quiet)
    show "filter is_write (snd (execute self bl env md))
              = concat (map (\<lambda>f. map (\<lambda>entry. WriteBytes
                                       (resolve_original_path ?d (res f) (fst entry))
                                       (snd entry)) (files (res f))) ?fs)"
      by (simp add: after [OF body] writes)
    show "filter is_error_report (snd (execute self bl env md)) = []"
      by (simp add: after [OF body] quiet)
  }
  {
    assume bad: "\<exists>f \<in> {start_frame self .. end_frame self}. \<exists>err. remote_render_frame md vbp f = Inl err"
    then obtain f err where f: "f \<in> set ?fs" and err: "remote_render_frame md vbp f = Inl err"
      by auto
    obtain err' where rm: "render_map (remote_render_frame md) ?args = Inl err'"
      using render_map_failure [of f ?fs "remote_render_frame md" vbp err] f err by blast
    have body: "render_body self bl env md (temp_blend_path bl) =
        ([RemotePrepare (temp_blend_path bl), RemoteRenderMap ?args (max_containers self)], Some err')"
      by (simp add: render_body_def prepared range rm)
    show "fst (execute self bl env md) = Returned CANCELLED"
      by (simp add: after [OF body])
    show "filter is_remote (snd (execute self bl env md))
              = [RemotePrepare (temp_blend_path bl), RemoteRenderMap ?args (max_containers self)]"
      by (simp add: after [OF body])
    show "filter is_write (snd (execute self bl env md)) = []"
      by (simp add: after [OF body])
    show "length (filter is_error_report (snd (execute self bl env md))) = 1"
      by (simp add: after [OF body])
  }
  {
    assume mixed: "(\<forall>f \<in> {start_frame self .. end_frame self}. remote_render_frame md vbp f = Inr (res f))
          \<and> (\<exists>f \<in> {start_frame self .. end_frame self}. \<exists>entry \<in> set (files (res f)).
                ?up \<or> snd (place_file env (resolve_original_path ?d (res f) (fst entry))
                          (snd entry)) \<noteq> None)"
    then have all: "\<forall>f \<in> set ?fs. remote_render_frame md vbp f = Inr (res f)" by simp
    have rm: "render_map (remote_render_frame md) ?args = Inr (map res ?fs)"
      using render_map_all_ok [of ?fs "remote_render_frame md" vbp res] all by simp
    from mixed obtain f entry where f: "f \<in> set ?fs" and entry: "entry \<in> set (files (res f))"
      and why: "?up \<or> snd (place_file env (resolve_original_path ?d (res f) (fst entry))
                          (snd entry)) \<noteq> None"
      by auto
    have "snd (process_rendered_files env ?d (res f) ?up ?folder) \<noteq> None"
      unfolding process_rendered_files_def by (rule process_files_fail [OF entry why])
    moreover have "res f \<in> set (map res ?fs)" using f by simp
    ultimately have "snd (process_results env ?d ?up ?folder (map res ?fs)) \<noteq> None"
      by (rule process_results_fail [rotated])
    then obtain evs e where pr: "process_results env ?d ?up ?folder (map res ?fs) = (evs, Some e)"
      by (cases "process_results env ?d ?up ?folder (map res ?fs)") auto
    have quiet: "filter is_remote evs = []" "filter is_error_report evs = []"
      using process_results_quiet [of env ?d ?up ?folder "map res ?fs"] by (simp_all add: pr)
    have body: "render_body self bl env md (temp_blend_path bl) =
        ([RemotePrepare (temp_blend_path bl), RemoteRenderMap ?args (max_containers self)] @ evs,
         Some e)"
      by (simp add: render_body_def prepared range rm pr)
    show "fst (execute self bl env md) = Returned CANCELLED"
      by (simp add: after [OF body])
    show "filter is_remote (snd (execute self bl env md))
              = [RemotePrepare (temp_blend_path bl), RemoteRenderMap ?args (max_containers self)]"
      by (simp add: after [OF body] quiet)
    show "length (filter is_error_report (snd (execute self bl env md))) = 1"
      by (simp add: after [OF body] quiet)
  }
qed

theorem execute_range_witness:
  "fst (execute example_operator example_blender env_ok (example_modal engine_ok))
     = Returned FINISHED
   \<and> filter is_write (snd (execute example_operator example_blender env_ok
                               (example_modal engine_ok)))
       = [WriteBytes ''/out/main/main.0010.exr'' ''/renders/temp/main.0010.exr'',
          WriteBytes ''/out/main/main.0011.exr'' ''/renders/temp/main.0011.exr'',
          WriteBytes ''/out/main/main.0012.exr'' ''/renders/temp/main.0012.exr'',
          WriteBytes ''/out/main/main.0013.exr'' ''/renders/temp/main.0013.exr'',
          WriteBytes ''/out/main/main.0014.exr'' ''/renders/temp/main.0014.exr'']
   \<and> fst (execute example_operator example_blender env_ok (example_modal engine_fail12))
       = Returned CANCELLED
   \<and> filter is_write (snd (execute example_operator example_blender env_ok
                               (example_modal engine_fail12))) = []
   \<and> length (filter is_error_report (snd (execute example_operator example_blender env_ok
                               (example_modal engine_fail12)))) = 1
   \<and> fst (execute (example_operator\<lparr>prop_upload_to_dropbox := True\<rparr>) example_blender env_ok
            (example_modal engine_ok))
       = Returned CANCELLED"
proof -
  let ?vbp = "''/assets/blend_files/shot_1700000000.blend''"
  let ?up = "example_operator\<lparr>prop_upload_to_dropbox := True\<rparr>"
  define res where "res = (\<lambda>f. \<lparr>frame = f,
      files = [(''main.'' @ format_04d f @ ''.exr'',
                path_join temp_output_dir (''main.'' @ format_04d f @ ''.exr''))],
      original_paths = example_snapshot\<rparr>)"
  have nodes: "get_file_output_nodes (scenes example_blender) \<noteq> []" by code_simp
  have saved: "filepath example_blender \<noteq> []" by code_simp
  have range: "render_type example_operator = RANGE" by code_simp
  have range': "render_type ?up = RANGE" by code_simp
  have mk: "makedirs env_ok submitter_dir = None" by code_simp
  have sv: "save_as_mainfile env_ok (temp_blend_path example_blender) = None" by code_simp
  have tc: "tracker_connect env_ok (path_join submitter_dir ''asset_tracker.db'') = None"
    by code_simp
  have cl: "tracker_close env_ok = None" by code_simp
  have se_ok: "session_enter (example_modal engine_ok) = None" by code_simp
  have se_bad: "session_enter (example_modal engine_fail12) = None" by code_simp
  have prep_ok: "prepare_blend_file (example_modal engine_ok) (temp_blend_path example_blender)
      = Inr ?vbp"
    by code_simp
  have prep_bad: "prepare_blend_file (example_modal engine_fail12) (temp_blend_path example_blender)
      = Inr ?vbp"
    by code_simp
  have all_ok: "\<forall>f \<in> {start_frame example_operator .. end_frame example_operator}.
      remote_render_frame (example_modal engine_ok) ?vbp f = Inr (res f)"
    by (simp add: res_def example_modal_def render_frame_def engine_ok_def example_snapshot_def
        split: prod.splits)
  have all_ok': "\<forall>f \<in> {start_frame ?up .. end_frame ?up}.
      remote_render_frame (example_modal engine_ok) ?vbp f = Inr (res f)"
    using all_ok by (simp add: example_operator_def)
  have noup: "\<not> prop_upload_to_dropbox example_operator" by code_simp
  have placed_list: "list_all (\<lambda>f. list_all (\<lambda>entry.
        snd (place_file env_ok
               (resolve_original_path (blend_dir example_blender) (res f) (fst entry))
               (snd entry)) = None) (files (res f)))
      [start_frame example_operator .. end_frame example_operator]"
    unfolding res_def by code_simp
  have placed: "\<forall>f \<in> {start_frame example_operator .. end_frame example_operator}.
      \<forall>entry \<in> set (files (res f)).
        snd (place_file env_ok
               (resolve_original_path (blend_dir example_blender) (res f) (fst entry))
               (snd entry)) = None"
    using placed_list by (simp add: list_all_iff)
  have in_range: "12 \<in> {start_frame example_operator .. end_frame example_operator}"
    by (simp add: example_operator_def)
  have fails: "remote_render_frame (example_modal engine_fail12) ?vbp 12
      = Inl (RenderError ''frame 12 failed'')"
    by code_simp
  have some_bad: "\<exists>f \<in> {start_frame example_operator .. end_frame example_operator}.
      \<exists>err. remote_render_frame (example_modal engine_fail12) ?vbp f = Inl err"
    using in_range fails by blast
  have in_range': "10 \<in> {start_frame ?up .. end_frame ?up}"
    by (simp add: example_operator_def)
  have entry: "(''main.'' @ format_04d 10 @ ''.exr'',
                path_join temp_output_dir (''main.'' @ format_04d 10 @ ''.exr''))
      \<in> set (files (res 10))"
    by (simp add: res_def)
  have requested: "prop_upload_to_dropbox ?up" by simp
  have upload: "\<exists>f \<in> {start_frame ?up .. end_frame ?up}. \<exists>entry \<in> set (files (res f)).
      prop_upload_to_dropbox ?up
      \<or> snd (place_file env_ok
                (resolve_original_path (blend_dir example_blender) (res f) (fst entry))
                (snd entry)) \<noteq> None"
    using in_range' entry requested by blast
  have writes: "concat (map (\<lambda>f. map (\<lambda>entry. WriteBytes
          (resolve_original_path (blend_dir example_blender) (res f) (fst entry)) (snd entry))
          (files (res f)))
        [start_frame example_operator .. end_frame example_operator])
      = [WriteBytes ''/out/main/main.0010.exr'' ''/renders/temp/main.0010.exr'',
          WriteBytes ''/out/main/main.0011.exr'' ''/renders/temp/main.0011.exr'',
          WriteBytes ''/out/main/main.0012.exr'' ''/renders/temp/main.0012.exr'',
          WriteBytes ''/out/main/main.0013.exr'' ''/renders/temp/main.0013.exr'',
          WriteBytes ''/out/main/main.0014.exr'' ''/renders/temp/main.0014.exr'']"
    unfolding res_def by code_simp
  from execute_range_all_or_nothing [OF nodes saved range mk sv tc cl se_ok prep_ok, of res] all_ok noup placed
  have a: "fst (execute example_operator example_blender env_ok (example_modal engine_ok))
       = Returned FINISHED"
    and b: "filter is_write (snd (execute example_operator example_blender env_ok
                                    (example_modal engine_ok)))
       = concat (map (\<lambda>f. map (\<lambda>entry. WriteBytes
          (resolve_original_path (blend_dir example_blender) (res f) (fst entry)) (snd entry))
          (files (res f)))
        [start_frame example_operator .. end_frame example_operator])"
    by blast+
  from execute_range_all_or_nothing [OF nodes saved range mk sv tc cl se_bad prep_bad, of res] some_bad
  have c: "fst (execute example_operator example_blender env_ok (example_modal engine_fail12))
       = Returned CANCELLED"
    and d: "filter is_write (snd (execute example_operator example_blender env_ok
                                    (example_modal engine_fail12))) = []"
    and e: "length (filter is_error_report (snd (execute example_operator example_blender env_ok
                               (example_modal engine_fail12)))) = 1"
    by blast+
  from execute_range_all_or_nothing [OF nodes saved range' mk sv tc cl se_ok prep_ok, of res] all_ok' upload
  have f: "fst (execute ?up example_blender env_ok (example_modal engine_ok)) = Returned CANCELLED"
    by blast
  from a b c d e f writes show ?thesis by simp
qed

text \<open>
  The claim as stated fails for the range 10 to 14 when frame 12 fails remotely: frames
  10, 11, 13 and 14 render, yet the operator is cancelled with the one error report and
  no result is reconciled.
\<close>

theorem range_failure_cancels_batch:
  "execute example_operator example_blender env_ok (example_modal engine_fail12) =
     (Returned CANCELLED,
      [MakeDirs ''/Users/derek/Skunkworks Dropbox/studio/submitter'',
       SaveAsMainfile ''/Users/derek/Skunkworks Dropbox/studio/submitter/shot_1700000000.blend'',
       MakeDirs ''/Users/derek/Skunkworks Dropbox/studio/submitter'',
       TrackerOpen ''/Users/derek/Skunkworks Dropbox/studio/submitter/asset_tracker.db'',
       Report ''INFO'' ''Starting render on Modal. Using File Output nodes from compositor.'',
       RemotePrepare ''/Users/derek/Skunkworks Dropbox/studio/submitter/shot_1700000000.blend'',
       RemoteRenderMap
         [(''/assets/blend_files/shot_1700000000.blend'', 10),
          (''/assets/blend_files/shot_1700000000.blend'', 11),
          (''/assets/blend_files/shot_1700000000.blend'', 12),
          (''/assets/blend_files/shot_1700000000.blend'', 13),
          (''/assets/blend_files/shot_1700000000.blend'', 14)] 2,
       Report ''ERROR'' ''Error rendering on Modal: frame 12 failed'',
       TrackerClose])
   \<and> \<not> isl (remote_render_frame (example_modal engine_fail12) ''/assets/blend_files/shot_1700000000.blend'' 10)
   \<and> \<not> isl (remote_render_frame (example_modal engine_fail12) ''/assets/blend_files/shot_1700000000.blend'' 11)
   \<and> isl (remote_render_frame (example_modal engine_fail12) ''/assets/blend_files/shot_1700000000.blend'' 12)
   \<and> \<not> isl (remote_render_frame (example_modal engine_fail12) ''/assets/blend_files/shot_1700000000.blend'' 13)
   \<and> \<not> isl (remote_render_frame (example_modal engine_fail12) ''/assets/blend_files/shot_1700000000.blend'' 14)"
  by code_simp

end
